theory Spec2Isabelle
  imports
    Main
    "HOL-Library.Char_ord"
    "HOL-Library.List_Lexorder"
    "HOL-Library.Multiset"
    "HOL-Library.Product_Lexorder"
begin

section \<open>Python values and documents\<close>

text \<open>
  The offline subsystem of ASHA Connect lives in \<^verbatim>\<open>src/services/offline_manager.py\<close>
  (class \<^verbatim>\<open>OfflineManager\<close>) and \<^verbatim>\<open>src/services/sync_service.py\<close> (class
  \<^verbatim>\<open>SyncService\<close>). Both keep their tables in SQLite and talk to a central database
  object \<^verbatim>\<open>self.db\<close>.

  A record's payload is a Python dictionary. The model keeps the value kinds a timestamp
  field can hold: \<^verbatim>\<open>None\<close>, booleans, integers, text and \<^verbatim>\<open>datetime\<close> objects
  (floats, lists and nested dictionaries are left out). A \<^verbatim>\<open>datetime\<close> is either
  naive or timezone-aware; the number is its position on the time line in microseconds.
  Text is compared the way both Python and SQLite's default collation compare it:
  lexicographically, code unit by code unit.
\<close>

datatype datetime = Naive int | Aware int

datatype py_value =
    PyNone
  | PyBool bool
  | PyInt int
  | PyStr string
  | PyDatetime datetime

type_synonym document = "(string \<times> py_value) list"

text \<open>\<^verbatim>\<open>d.get(k)\<close>: the value stored under the key, \<^verbatim>\<open>None\<close> when the key is absent.\<close>

definition dict_get :: "document \<Rightarrow> string \<Rightarrow> py_value" where
  "dict_get d k = (case map_of d k of None \<Rightarrow> PyNone | Some v \<Rightarrow> v)"

text \<open>Python's truth value, as \<^verbatim>\<open>not x\<close> and \<^verbatim>\<open>if x:\<close> read it.\<close>

fun truthy :: "py_value \<Rightarrow> bool" where
  "truthy PyNone = False"
| "truthy (PyBool b) = b"
| "truthy (PyInt i) = (i \<noteq> 0)"
| "truthy (PyStr s) = (s \<noteq> [])"
| "truthy (PyDatetime t) = True"

text \<open>
  \<^verbatim>\<open>a > b\<close>. Comparing a naive with an aware \<^verbatim>\<open>datetime\<close>, or values of unrelated
  types, raises \<^verbatim>\<open>TypeError\<close>: the result \<open>None\<close>.
\<close>

fun datetime_gt :: "datetime \<Rightarrow> datetime \<Rightarrow> bool option" where
  "datetime_gt (Naive a) (Naive b) = Some (b < a)"
| "datetime_gt (Aware a) (Aware b) = Some (b < a)"
| "datetime_gt (Naive a) (Aware b) = None"
| "datetime_gt (Aware a) (Naive b) = None"

fun as_number :: "py_value \<Rightarrow> int option" where
  "as_number (PyInt i) = Some i"
| "as_number (PyBool b) = Some (if b then 1 else 0)"
| "as_number PyNone = None"
| "as_number (PyStr s) = None"
| "as_number (PyDatetime t) = None"

fun py_gt :: "py_value \<Rightarrow> py_value \<Rightarrow> bool option" where
  "py_gt (PyDatetime a) (PyDatetime b) = datetime_gt a b"
| "py_gt (PyStr a) (PyStr b) = Some (b < a)"
| "py_gt x y =
     (case (as_number x, as_number y) of
        (Some a, Some b) \<Rightarrow> Some (b < a)
      | _ \<Rightarrow> None)"

text \<open>\<^verbatim>\<open>s.replace('Z', '+00:00')\<close>: every \<^verbatim>\<open>Z\<close> of the text is replaced.\<close>

definition replace_Z :: "string \<Rightarrow> string" where
  "replace_Z s = concat (map (\<lambda>c. if c = CHR ''Z'' then ''+00:00'' else [c]) s)"

text \<open>
  Decimal rendering of an integer, as an f-string renders \<^verbatim>\<open>int(time.time())\<close> and the
  counters of a pass.
\<close>

definition digit_char :: "nat \<Rightarrow> char" where
  "digit_char n = ''0123456789'' ! n"

fun show_nat :: "nat \<Rightarrow> string" where
  "show_nat n = (if n < 10 then [digit_char n] else show_nat (n div 10) @ [digit_char (n mod 10)])"

declare show_nat.simps [simp del]

definition show_int :: "int \<Rightarrow> string" where
  "show_int i = (if i < 0 then CHR ''-'' # show_nat (nat (- i)) else show_nat (nat i))"

section \<open>The conflict resolver\<close>

text \<open>
  \<^verbatim>\<open>OfflineManager._resolve_conflict(record_type, central_data, local_data)\<close> returns
  \<^verbatim>\<open>True\<close> when the local data is to be written to the central database:
  \<^verbatim>\<open>
    try:
        central_time = central_data.get('updated_at')
        local_time = local_data.get('updated_at')
        if not central_time or not local_time:
            return True
        if isinstance(central_time, str):
            central_time = datetime.fromisoformat(central_time.replace('Z', '+00:00'))
        if isinstance(local_time, str):
            local_time = datetime.fromisoformat(local_time.replace('Z', '+00:00'))
        return local_time > central_time
    except Exception as e:
        return True
  \<close>
  The standard library's parser \<^verbatim>\<open>datetime.fromisoformat\<close> is a parameter of the model:
  a partial function from text to \<^verbatim>\<open>datetime\<close>, \<open>None\<close> where it raises
  \<^verbatim>\<open>ValueError\<close>.
\<close>

definition parse_time :: "(string \<Rightarrow> datetime option) \<Rightarrow> py_value \<Rightarrow> py_value option" where
  "parse_time fromisoformat v =
     (case v of
        PyStr s \<Rightarrow> map_option PyDatetime (fromisoformat (replace_Z s))
      | _ \<Rightarrow> Some v)"

definition resolve_conflict ::
  "(string \<Rightarrow> datetime option) \<Rightarrow> string \<Rightarrow> document \<Rightarrow> document \<Rightarrow> bool" where
  "resolve_conflict fromisoformat record_type central_data local_data =
     (let central_time = dict_get central_data ''updated_at'';
          local_time = dict_get local_data ''updated_at''
      in if \<not> truthy central_time \<or> \<not> truthy local_time then True
         else (case parse_time fromisoformat central_time of
                 None \<Rightarrow> True
               | Some c \<Rightarrow>
                   (case parse_time fromisoformat local_time of
                      None \<Rightarrow> True
                    | Some l \<Rightarrow>
                        (case py_gt l c of
                           None \<Rightarrow> True
                         | Some b \<Rightarrow> b))))"

section \<open>The local store\<close>

text \<open>
  The SQLite tables of \<^verbatim>\<open>_init_local_storage\<close>, each a list of rows in insertion
  (rowid) order. Timestamps are the ISO texts the code writes with
  \<^verbatim>\<open>datetime.now().isoformat()\<close>; the \<^verbatim>\<open>data\<close> columns hold the JSON text of a
  document, modelled by the document itself (\<^verbatim>\<open>json.loads\<close> of \<^verbatim>\<open>json.dumps\<close>);
  \<^verbatim>\<open>synced\<close> is the 0/1 flag.
\<close>

record patient_row =
  patient_id :: string
  p_data :: document
  p_created_at :: string
  p_updated_at :: string
  p_synced :: bool

record assessment_row =
  assessment_id :: string
  a_patient_id :: string
  a_data :: document
  a_created_at :: string
  a_synced :: bool

record sync_row =
  sync_id :: string
  record_type :: string
  record_id :: string
  data :: document
  priority :: int
  created_at :: string
  retry_count :: int
  last_attempt :: "string option"
  error_message :: "string option"

text \<open>
  The manager: its three record tables and the two attributes \<^verbatim>\<open>sync_in_progress\<close> and
  \<^verbatim>\<open>last_sync_time\<close> of \<^verbatim>\<open>__init__\<close>.
\<close>

record offline_manager =
  patients :: "patient_row list"
  health_assessments :: "assessment_row list"
  sync_queue :: "sync_row list"
  sync_in_progress :: bool
  last_sync_time :: "string option"

text \<open>The part of the configuration the modelled operations read (defaults of \<^verbatim>\<open>_load_config\<close>).\<close>

record config =
  max_offline_days :: int
  max_storage_size_mb :: int
  priority_health_assessments :: int
  priority_patients :: int

definition default_config :: config where
  "default_config =
     \<lparr>max_offline_days = 30, max_storage_size_mb = 500,
      priority_health_assessments = 10, priority_patients = 5\<rparr>"

text \<open>The objects handed to the save operations: their id and their \<^verbatim>\<open>to_dict()\<close>.\<close>

record patient =
  patient_key :: string
  patient_dict :: document

record health_assessment =
  assessment_key :: string
  assessment_patient :: string
  assessment_dict :: document

subsection \<open>Saving\<close>

text \<open>
  What the environment decides during one save: the two clock readings, the epoch second
  that goes into the \<^verbatim>\<open>sync_id\<close>, and where a storage call of the save's own connection
  raises.
  \<^item> \<open>upsert_raises\<close>: an exception in the save before the queue call (\<^verbatim>\<open>connect\<close>,
    \<^verbatim>\<open>json.dumps\<close>, the \<^verbatim>\<open>SELECT\<close>, the \<^verbatim>\<open>UPDATE\<close>/\<^verbatim>\<open>INSERT\<close>);
  \<^item> \<open>commit_raises\<close>: an exception in the save's final \<^verbatim>\<open>commit\<close>/\<^verbatim>\<open>close\<close>.
\<close>

record save_env =
  save_now :: string
  queue_now :: string
  epoch_seconds :: int
  upsert_raises :: bool
  commit_raises :: bool

text \<open>
  \<^verbatim>\<open>_add_to_sync_queue(record_type, record_id, data, priority)\<close>: opens a connection of
  its own, inserts one row with
  \<^verbatim>\<open>sync_id = f"{record_type}_{record_id}_{int(time.time())}"\<close> and commits. Any exception
  is logged and turned into the result \<^verbatim>\<open>False\<close>: the \<^verbatim>\<open>IntegrityError\<close> of a
  \<^verbatim>\<open>sync_id\<close> that is already in the table (the column is the primary key), and whatever
  else the storage raises (\<open>insert_raises\<close>), among it \<^verbatim>\<open>OperationalError\<close> "database is
  locked" when another connection holds the write lock.
\<close>

definition make_sync_id :: "string \<Rightarrow> string \<Rightarrow> int \<Rightarrow> string" where
  "make_sync_id rtype rid t = rtype @ ''_'' @ rid @ ''_'' @ show_int t"

definition add_to_sync_queue ::
  "bool \<Rightarrow> string \<Rightarrow> int \<Rightarrow> string \<Rightarrow> string \<Rightarrow> document \<Rightarrow> int \<Rightarrow> offline_manager
     \<Rightarrow> bool \<times> offline_manager" where
  "add_to_sync_queue insert_raises now t rtype rid d prio s =
     (let sid = make_sync_id rtype rid t
      in if insert_raises \<or> sid \<in> set (map sync_id (sync_queue s))
         then (False, s)
         else (True,
               s\<lparr>sync_queue := sync_queue s @
                    [\<lparr>sync_id = sid, record_type = rtype, record_id = rid, data = d,
                      priority = prio, created_at = now, retry_count = 0,
                      last_attempt = None, error_message = None\<rparr>]\<rparr>))"

text \<open>
  \<^verbatim>\<open>save_patient_offline(patient)\<close>: on its own connection, update the row when the id
  exists and insert it otherwise, with \<^verbatim>\<open>synced = 0\<close>; call \<^verbatim>\<open>_add_to_sync_queue\<close>
  (its result is not looked at); commit. The upsert becomes durable only with the commit;
  any exception makes the save return \<^verbatim>\<open>False\<close>.

  When the queue helper is called, the save's connection has run its \<^verbatim>\<open>UPDATE\<close> or
  \<^verbatim>\<open>INSERT\<close> and not yet committed: it holds the write lock of the database file. SQLite
  admits one writer, so the \<^verbatim>\<open>INSERT\<close> on the helper's second connection waits for the
  busy timeout and raises "database is locked". Inside a save the helper is therefore
  called with \<open>insert_raises = True\<close>.
\<close>

definition upsert_patient :: "string \<Rightarrow> patient \<Rightarrow> patient_row list \<Rightarrow> patient_row list" where
  "upsert_patient now p rows =
     (if patient_key p \<in> set (map patient_id rows)
      then map (\<lambda>r. if patient_id r = patient_key p
                      then r\<lparr>p_data := patient_dict p, p_updated_at := now, p_synced := False\<rparr>
                      else r) rows
      else rows @ [\<lparr>patient_id = patient_key p, p_data = patient_dict p,
                     p_created_at = now, p_updated_at = now, p_synced = False\<rparr>])"

definition save_patient_offline ::
  "config \<Rightarrow> save_env \<Rightarrow> patient \<Rightarrow> offline_manager \<Rightarrow> bool \<times> offline_manager" where
  "save_patient_offline cfg env p s =
     (if upsert_raises env then (False, s)
      else let rows = upsert_patient (save_now env) p (patients s);
               s1 = snd (add_to_sync_queue True (queue_now env) (epoch_seconds env)
                           ''patient'' (patient_key p) (patient_dict p)
                           (priority_patients cfg) s)
           in if commit_raises env then (False, s1)
              else (True, s1\<lparr>patients := rows\<rparr>))"

text \<open>
  \<^verbatim>\<open>save_assessment_offline(assessment)\<close>: the same shape; an existing row only gets new
  data and \<^verbatim>\<open>synced = 0\<close>.
\<close>

definition upsert_assessment ::
  "string \<Rightarrow> health_assessment \<Rightarrow> assessment_row list \<Rightarrow> assessment_row list" where
  "upsert_assessment now a rows =
     (if assessment_key a \<in> set (map assessment_id rows)
      then map (\<lambda>r. if assessment_id r = assessment_key a
                      then r\<lparr>a_data := assessment_dict a, a_synced := False\<rparr>
                      else r) rows
      else rows @ [\<lparr>assessment_id = assessment_key a, a_patient_id = assessment_patient a,
                     a_data = assessment_dict a, a_created_at = now, a_synced = False\<rparr>])"

definition save_assessment_offline ::
  "config \<Rightarrow> save_env \<Rightarrow> health_assessment \<Rightarrow> offline_manager \<Rightarrow> bool \<times> offline_manager" where
  "save_assessment_offline cfg env a s =
     (if upsert_raises env then (False, s)
      else let rows = upsert_assessment (save_now env) a (health_assessments s);
               s1 = snd (add_to_sync_queue True (queue_now env) (epoch_seconds env)
                           ''health_assessment'' (assessment_key a) (assessment_dict a)
                           (priority_health_assessments cfg) s)
           in if commit_raises env then (False, s1)
              else (True, s1\<lparr>health_assessments := rows\<rparr>))"

subsection \<open>Reading\<close>

text \<open>
  \<^verbatim>\<open>get_patient_offline(patient_id)\<close> returns the patient built from the stored document,
  and \<^verbatim>\<open>None\<close> both when no row has the id and when anything in the \<^verbatim>\<open>try\<close> block
  raises (\<open>read_raises\<close>). The returned object is represented by its document.
\<close>

definition get_patient_offline :: "bool \<Rightarrow> string \<Rightarrow> offline_manager \<Rightarrow> document option" where
  "get_patient_offline read_raises pid s =
     (if read_raises then None
      else map_option p_data (find (\<lambda>r. patient_id r = pid) (patients s)))"

definition get_assessment_offline :: "bool \<Rightarrow> string \<Rightarrow> offline_manager \<Rightarrow> document option" where
  "get_assessment_offline read_raises aid s =
     (if read_raises then None
      else map_option a_data (find (\<lambda>r. assessment_id r = aid) (health_assessments s)))"

section \<open>The sync queue\<close>

text \<open>
  \<^verbatim>\<open>_get_sync_queue_records(limit=50)\<close> runs
  \<^verbatim>\<open>SELECT * FROM sync_queue ORDER BY priority DESC, retry_count ASC, created_at ASC LIMIT ?\<close>
  and returns \<^verbatim>\<open>[]\<close> when anything raises. The \<^verbatim>\<open>ORDER BY\<close> is a sort on the key
  (negated priority, retry count, creation text), ordered lexicographically; SQLite reads
  a negative \<^verbatim>\<open>LIMIT\<close> as no limit.
\<close>

definition order_key :: "sync_row \<Rightarrow> int \<times> int \<times> string" where
  "order_key r = (- priority r, retry_count r, created_at r)"

definition sql_limit :: "int \<Rightarrow> 'a list \<Rightarrow> 'a list" where
  "sql_limit n xs = (if n < 0 then xs else take (nat n) xs)"

definition get_sync_queue_records :: "bool \<Rightarrow> int \<Rightarrow> offline_manager \<Rightarrow> sync_row list" where
  "get_sync_queue_records read_raises limit s =
     (if read_raises then []
      else sql_limit limit (sort_key order_key (sync_queue s)))"

text \<open>
  The order the specification asks of a batch, written from its words: higher priority
  first; among equal priorities the lower retry count first; among equal priority and
  retry count the earlier creation time first.
\<close>

definition queue_order :: "sync_row \<Rightarrow> sync_row \<Rightarrow> bool" where
  "queue_order a b =
     (priority b < priority a \<or>
      (priority a = priority b \<and>
        (retry_count a < retry_count b \<or>
         (retry_count a = retry_count b \<and> created_at a \<le> created_at b))))"

subsection \<open>Bookkeeping of an attempt\<close>

text \<open>
  The three helpers below each open a connection, run one statement and commit; each
  catches every exception and only logs it, so a raising helper changes nothing.
  \<^item> \<^verbatim>\<open>_update_sync_attempt(sync_id)\<close>:
    \<^verbatim>\<open>UPDATE sync_queue SET retry_count = retry_count + 1, last_attempt = ? WHERE sync_id = ?\<close>
  \<^item> \<^verbatim>\<open>_update_sync_record_status(sync_id, success, error_message)\<close>: on success
    \<^verbatim>\<open>DELETE FROM sync_queue WHERE sync_id = ?\<close>, otherwise
    \<^verbatim>\<open>UPDATE sync_queue SET error_message = ? WHERE sync_id = ?\<close>
  \<^item> \<^verbatim>\<open>_mark_record_synced(record_type, record_id)\<close>: sets \<^verbatim>\<open>synced = 1\<close> on the patient
    or the assessment with that id, and does nothing for another record type.
\<close>

definition update_sync_attempt :: "bool \<Rightarrow> string \<Rightarrow> string \<Rightarrow> offline_manager \<Rightarrow> offline_manager" where
  "update_sync_attempt raises now sid s =
     (if raises then s
      else s\<lparr>sync_queue :=
             map (\<lambda>r. if sync_id r = sid
                        then r\<lparr>retry_count := retry_count r + 1, last_attempt := Some now\<rparr>
                        else r) (sync_queue s)\<rparr>)"

definition update_sync_record_status ::
  "bool \<Rightarrow> string \<Rightarrow> bool \<Rightarrow> string option \<Rightarrow> offline_manager \<Rightarrow> offline_manager" where
  "update_sync_record_status raises sid ok err s =
     (if raises then s
      else if ok then s\<lparr>sync_queue := filter (\<lambda>r. sync_id r \<noteq> sid) (sync_queue s)\<rparr>
      else s\<lparr>sync_queue :=
             map (\<lambda>r. if sync_id r = sid then r\<lparr>error_message := err\<rparr> else r) (sync_queue s)\<rparr>)"

definition mark_record_synced :: "bool \<Rightarrow> string \<Rightarrow> string \<Rightarrow> offline_manager \<Rightarrow> offline_manager" where
  "mark_record_synced raises rtype rid s =
     (if raises then s
      else if rtype = ''patient''
      then s\<lparr>patients :=
             map (\<lambda>r. if patient_id r = rid then r\<lparr>p_synced := True\<rparr> else r) (patients s)\<rparr>
      else if rtype = ''health_assessment''
      then s\<lparr>health_assessments :=
             map (\<lambda>r. if assessment_id r = rid then r\<lparr>a_synced := True\<rparr> else r)
               (health_assessments s)\<rparr>
      else s)"

section \<open>The sync engine of the offline manager\<close>

text \<open>
  The central database \<^verbatim>\<open>self.db\<close> is handed to the manager from outside. The model takes
  what its calls answer: a call either raises (with the exception's text) or returns a
  value, for \<^verbatim>\<open>find_one\<close>, \<^verbatim>\<open>update_one\<close> and \<^verbatim>\<open>insert_one\<close> a document or
  \<^verbatim>\<open>None\<close>. Reading \<^verbatim>\<open>is_connected\<close> may raise as well (\<open>None\<close>). The writes a pass
  issues are collected in a trace.
\<close>

datatype 'a reply = Raises string | Returns 'a

record central_db =
  is_connected :: "bool option"
  find_one :: "string \<Rightarrow> string \<Rightarrow> document option reply"
  update_one :: "string \<Rightarrow> string \<Rightarrow> document \<Rightarrow> document option reply"
  insert_one :: "string \<Rightarrow> document \<Rightarrow> document option reply"

datatype remote_write =
    Update_one string string document
  | Insert_one string document

text \<open>\<^verbatim>\<open>_check_connectivity\<close>: \<^verbatim>\<open>self.db.is_connected\<close>, and \<^verbatim>\<open>False\<close> when reading it raises.\<close>

definition check_connectivity :: "central_db \<Rightarrow> bool" where
  "check_connectivity d = (case is_connected d of None \<Rightarrow> False | Some b \<Rightarrow> b)"

text \<open>\<^verbatim>\<open>result is not None\<close> for the answer of a write; a raising write makes the sync fail.\<close>

definition write_succeeded :: "document option reply \<Rightarrow> bool" where
  "write_succeeded r = (case r of Raises e \<Rightarrow> False | Returns None \<Rightarrow> False | Returns (Some d) \<Rightarrow> True)"

text \<open>
  \<^verbatim>\<open>_sync_patient(patient_id, data)\<close>: look the patient up centrally; when the answer is
  truthy (a non-empty document) ask the conflict resolver and either update or skip
  (a skip counts as success); otherwise insert.
\<close>

definition sync_patient ::
  "central_db \<Rightarrow> (string \<Rightarrow> datetime option) \<Rightarrow> string \<Rightarrow> document \<Rightarrow> bool \<times> remote_write list" where
  "sync_patient d fromisoformat pid local_data =
     (case find_one d ''patients'' pid of
        Raises e \<Rightarrow> (False, [])
      | Returns central_patient \<Rightarrow>
          (case central_patient of
             Some (f # fs) \<Rightarrow>
               if resolve_conflict fromisoformat ''patient'' (f # fs) local_data
               then (write_succeeded (update_one d ''patients'' pid local_data),
                     [Update_one ''patients'' pid local_data])
               else (True, [])
           | _ \<Rightarrow>
               (write_succeeded (insert_one d ''patients'' local_data),
                [Insert_one ''patients'' local_data])))"

text \<open>\<^verbatim>\<open>_sync_assessment(assessment_id, data)\<close>: update when found, insert otherwise.\<close>

definition sync_assessment ::
  "central_db \<Rightarrow> string \<Rightarrow> document \<Rightarrow> bool \<times> remote_write list" where
  "sync_assessment d aid local_data =
     (case find_one d ''health_assessments'' aid of
        Raises e \<Rightarrow> (False, [])
      | Returns central_assessment \<Rightarrow>
          (case central_assessment of
             Some (f # fs) \<Rightarrow>
               (write_succeeded (update_one d ''health_assessments'' aid local_data),
                [Update_one ''health_assessments'' aid local_data])
           | _ \<Rightarrow>
               (write_succeeded (insert_one d ''health_assessments'' local_data),
                [Insert_one ''health_assessments'' local_data])))"

text \<open>
  What the environment decides during one pass. The per-entry answers are indexed by the
  entry's \<^verbatim>\<open>sync_id\<close>.
  \<^item> \<open>decode_raises\<close>: the text of an exception raised in \<^verbatim>\<open>_sync_record\<close> while it
    unpacks the row (\<^verbatim>\<open>json.loads\<close>), before the attempt is recorded;
  \<^item> \<open>attempt_raises\<close>, \<open>status_raises\<close>, \<open>mark_raises\<close>: the helper fails on its storage;
  \<^item> \<open>pass_error\<close>: an exception that escapes to the \<^verbatim>\<open>try\<close> of \<^verbatim>\<open>sync_data\<close> itself,
    after the given number of entries has been handled, with its text.
\<close>

record sync_env =
  db :: central_db
  fromisoformat :: "string \<Rightarrow> datetime option"
  queue_read_raises :: bool
  attempt_now :: "string \<Rightarrow> string"
  decode_raises :: "string \<Rightarrow> string option"
  attempt_raises :: "string \<Rightarrow> bool"
  status_raises :: "string \<Rightarrow> bool"
  mark_raises :: "string \<Rightarrow> bool"
  pass_error :: "(nat \<times> string) option"
  finish_now :: string

text \<open>
  \<^verbatim>\<open>_sync_record(record)\<close>: record the attempt, sync by record type, and on success delete
  the queue entry and mark the record synced. A failed sync leaves the entry as the
  attempt left it; an exception while unpacking stores its text in \<^verbatim>\<open>error_message\<close>.
\<close>

definition sync_record ::
  "sync_env \<Rightarrow> sync_row \<Rightarrow> offline_manager \<Rightarrow> bool \<times> remote_write list \<times> offline_manager" where
  "sync_record env r s =
     (let sid = sync_id r
      in case decode_raises env sid of
           Some e \<Rightarrow> (False, [], update_sync_record_status (status_raises env sid) sid False (Some e) s)
         | None \<Rightarrow>
             (let s1 = update_sync_attempt (attempt_raises env sid) (attempt_now env sid) sid s
              in if record_type r = ''patient'' \<or> record_type r = ''health_assessment''
                 then (let (result, ws) =
                             (if record_type r = ''patient''
                              then sync_patient (db env) (fromisoformat env) (record_id r) (data r)
                              else sync_assessment (db env) (record_id r) (data r))
                       in if result
                          then (True, ws,
                                mark_record_synced (mark_raises env sid) (record_type r) (record_id r)
                                  (update_sync_record_status (status_raises env sid) sid True None s1))
                          else (False, ws, s1))
                 else (False, [], s1)))"

text \<open>
  The loop of \<^verbatim>\<open>sync_data\<close> over the batch, counting synced and failed entries.
  (\<^verbatim>\<open>_sync_record\<close> catches every exception itself, so the loop's own handler is never
  entered.)
\<close>

fun sync_records ::
  "sync_env \<Rightarrow> sync_row list \<Rightarrow> int \<times> int \<times> remote_write list \<times> offline_manager
     \<Rightarrow> int \<times> int \<times> remote_write list \<times> offline_manager" where
  "sync_records env [] acc = acc"
| "sync_records env (r # rs) (synced_count, failed_count, ws, s) =
     (case sync_record env r s of
        (ok, ws', s') \<Rightarrow>
          sync_records env rs
            (if ok then (synced_count + 1, failed_count, ws @ ws', s')
             else (synced_count, failed_count + 1, ws @ ws', s')))"

text \<open>The dictionary a pass returns; the keys missing from a dictionary are \<open>None\<close>.\<close>

record sync_result =
  success :: bool
  message :: string
  synced_records :: int
  failed_records :: "int option"
  sync_time :: "string option"

text \<open>
  The body of the \<^verbatim>\<open>try\<close> of \<^verbatim>\<open>sync_data\<close> with its \<^verbatim>\<open>except\<close>: the connectivity check
  (which clears the flag before its early return), the batch of 50, the loop, the summary.
\<close>

definition sync_body :: "sync_env \<Rightarrow> offline_manager \<Rightarrow> sync_result \<times> remote_write list \<times> offline_manager" where
  "sync_body env s =
     (if \<not> check_connectivity (db env)
      then (\<lparr>success = False, message = ''No connectivity to central database'',
             synced_records = 0, failed_records = None, sync_time = None\<rparr>,
            [], s\<lparr>sync_in_progress := False\<rparr>)
      else (let records_to_sync = get_sync_queue_records (queue_read_raises env) 50 s
            in case pass_error env of
                 Some (n, e) \<Rightarrow>
                   (case sync_records env (take n records_to_sync) (0, 0, [], s) of
                      (synced_count, failed_count, ws, s') \<Rightarrow>
                        (\<lparr>success = False, message = ''Sync error: '' @ e,
                          synced_records = 0, failed_records = None, sync_time = None\<rparr>,
                         ws, s'))
               | None \<Rightarrow>
                   (case sync_records env records_to_sync (0, 0, [], s) of
                      (synced_count, failed_count, ws, s') \<Rightarrow>
                        (\<lparr>success = True,
                          message = ''Sync completed: '' @ show_int synced_count @ '' synced, ''
                                    @ show_int failed_count @ '' failed'',
                          synced_records = synced_count, failed_records = Some failed_count,
                          sync_time = Some (finish_now env)\<rparr>,
                         ws, s'\<lparr>last_sync_time := Some (finish_now env)\<rparr>))))"

text \<open>
  \<^verbatim>\<open>OfflineManager.sync_data()\<close>: the single-flight gate, the body, and the
  \<^verbatim>\<open>finally\<close> that clears the flag.
\<close>

definition sync_data :: "sync_env \<Rightarrow> offline_manager \<Rightarrow> sync_result \<times> remote_write list \<times> offline_manager" where
  "sync_data env s =
     (if sync_in_progress s
      then (\<lparr>success = False, message = ''Sync already in progress'',
             synced_records = 0, failed_records = None, sync_time = None\<rparr>, [], s)
      else (case sync_body env (s\<lparr>sync_in_progress := True\<rparr>) of
              (res, ws, s') \<Rightarrow> (res, ws, s'\<lparr>sync_in_progress := False\<rparr>)))"

section \<open>The storage reclaimer\<close>

text \<open>
  \<^verbatim>\<open>_clean_old_synced_records()\<close>, all on one connection with one commit at the end:
  \<^verbatim>\<open>
    DELETE FROM health_assessments WHERE synced = 1 AND created_at < cutoff
    SELECT DISTINCT patient_id FROM health_assessments WHERE created_at >= cutoff
    DELETE FROM patients WHERE synced = 1 AND updated_at < cutoff
                           AND patient_id NOT IN (recent ids)
  \<close>
  (the last without the \<^verbatim>\<open>NOT IN\<close> when there is no recent id). The cutoff is the text of
  the clock reading minus \<^verbatim>\<open>max_offline_days\<close>; it is an input here. An exception anywhere
  is logged and nothing is committed.
\<close>

definition clean_old_synced_records :: "bool \<Rightarrow> string \<Rightarrow> offline_manager \<Rightarrow> offline_manager" where
  "clean_old_synced_records raises cutoff_date s =
     (if raises then s
      else (let kept = filter (\<lambda>r. \<not> (a_synced r \<and> a_created_at r < cutoff_date))
                         (health_assessments s);
                recent_patient_ids =
                  remdups (map a_patient_id (filter (\<lambda>r. cutoff_date \<le> a_created_at r) kept))
            in s\<lparr>health_assessments := kept,
                 patients :=
                   (if recent_patient_ids \<noteq> []
                    then filter (\<lambda>r. \<not> (p_synced r \<and> p_updated_at r < cutoff_date
                                         \<and> patient_id r \<notin> set recent_patient_ids)) (patients s)
                    else filter (\<lambda>r. \<not> (p_synced r \<and> p_updated_at r < cutoff_date)) (patients s))\<rparr>))"

text \<open>
  \<^verbatim>\<open>_manage_storage()\<close>: the records are cleaned when the size of the database file in
  megabytes exceeds \<^verbatim>\<open>max_storage_size_mb * 0.9\<close>. The source compares in double
  precision; the model compares the exact quantities. \<open>None\<close> for the size: reading it
  raises, and the sweep does nothing. (The sweep goes on to \<^verbatim>\<open>_clean_old_resources\<close>,
  which works on the \<^verbatim>\<open>resources\<close> table and its files only; that table is outside the
  model.)
\<close>

definition over_storage_limit :: "config \<Rightarrow> nat \<Rightarrow> bool" where
  "over_storage_limit cfg size_bytes =
     (9 * (1024 * 1024) * max_storage_size_mb cfg < 10 * int size_bytes)"

definition manage_storage ::
  "config \<Rightarrow> nat option \<Rightarrow> bool \<Rightarrow> string \<Rightarrow> offline_manager \<Rightarrow> offline_manager" where
  "manage_storage cfg db_size clean_raises cutoff_date s =
     (case db_size of
        None \<Rightarrow> s
      | Some size_bytes \<Rightarrow>
          if over_storage_limit cfg size_bytes
          then clean_old_synced_records clean_raises cutoff_date s
          else s)"

section \<open>The sync service\<close>

text \<open>
  \<^verbatim>\<open>SyncService\<close> keeps one table \<^verbatim>\<open>sync_data\<close> whose rows carry a \<^verbatim>\<open>status\<close> text
  (\<^verbatim>\<open>'pending'\<close>, \<^verbatim>\<open>'synced'\<close> or \<^verbatim>\<open>'failed'\<close>); \<^verbatim>\<open>sync_id\<close> is its primary key.
\<close>

record sync_data_row =
  sd_sync_id :: string
  data_type :: string
  sd_data :: document
  status :: string
  sd_created_at :: string
  modified_at :: string

text \<open>
  \<^verbatim>\<open>_sync_with_server(data_type, data)\<close> copies the document, deletes the keys that start
  with \<^verbatim>\<open>_sync_\<close> and reports success: the exchange with the server is a stub. Its
  \<^verbatim>\<open>except\<close> branch would classify a failure as permanent when the exception text
  contains \<^verbatim>\<open>'invalid data format'\<close>, but nothing in the \<^verbatim>\<open>try\<close> body raises on a
  document, so the answer is always success.
\<close>

datatype server_result = Server_ok | Server_failed string bool

definition sync_with_server :: "string \<Rightarrow> document \<Rightarrow> server_result" where
  "sync_with_server dtype d = Server_ok"

text \<open>
  What the environment decides during one pass of the service. A storage exception either
  comes before the first commit (nothing of the pass is kept) or after it, in the cleanup
  (the status updates are kept, the cleanup is not).
\<close>

datatype storage_fault = No_fault | Before_commit string | After_commit string

record service_env =
  is_online :: bool
  update_now :: "string \<Rightarrow> string"
  cleanup_cutoff :: string
  storage_fault :: storage_fault

record service_result =
  sr_success :: bool
  sr_message :: "string option"
  sr_error :: "string option"
  sr_synced :: "int option"
  sr_failed :: "int option"
  sr_retried_count :: "int option"

text \<open>\<^verbatim>\<open>UPDATE sync_data SET status = ?, modified_at = ? WHERE sync_id = ?\<close>\<close>

definition set_status :: "string \<Rightarrow> string \<Rightarrow> string \<Rightarrow> sync_data_row list \<Rightarrow> sync_data_row list" where
  "set_status st now sid table =
     map (\<lambda>r. if sd_sync_id r = sid then r\<lparr>status := st, modified_at := now\<rparr> else r) table"

text \<open>
  \<^verbatim>\<open>SELECT * FROM sync_data WHERE status = 'pending' ORDER BY created_at ASC\<close>: the rows
  one pass works on.
\<close>

definition pending_rows :: "sync_data_row list \<Rightarrow> sync_data_row list" where
  "pending_rows table = sort_key sd_created_at (filter (\<lambda>r. status r = ''pending'') table)"

text \<open>
  The loop of \<^verbatim>\<open>SyncService.sync_data\<close>: a synced row gets status \<^verbatim>\<open>'synced'\<close>, a
  permanently failed one \<^verbatim>\<open>'failed'\<close>, a temporarily failed one stays as it is (the two
  failure branches are written in the source and never taken).
\<close>

fun process_pending ::
  "service_env \<Rightarrow> sync_data_row list \<Rightarrow> int \<times> int \<times> sync_data_row list
     \<Rightarrow> int \<times> int \<times> sync_data_row list" where
  "process_pending env [] acc = acc"
| "process_pending env (row # rows) (synced, failed, table) =
     (case sync_with_server (data_type row) (sd_data row) of
        Server_ok \<Rightarrow>
          process_pending env rows
            (synced + 1, failed,
             set_status ''synced'' (update_now env (sd_sync_id row)) (sd_sync_id row) table)
      | Server_failed e permanent \<Rightarrow>
          process_pending env rows
            (synced, failed + 1,
             if permanent
             then set_status ''failed'' (update_now env (sd_sync_id row)) (sd_sync_id row) table
             else table))"

text \<open>\<^verbatim>\<open>_cleanup_old_data\<close>: \<^verbatim>\<open>DELETE FROM sync_data WHERE status = 'synced' AND modified_at < ?\<close>\<close>

definition cleanup_old_data :: "string \<Rightarrow> sync_data_row list \<Rightarrow> sync_data_row list" where
  "cleanup_old_data cutoff table =
     filter (\<lambda>r. \<not> (status r = ''synced'' \<and> modified_at r < cutoff)) table"

definition service_error :: "string \<Rightarrow> service_result" where
  "service_error e =
     \<lparr>sr_success = False, sr_message = None, sr_error = Some e,
      sr_synced = None, sr_failed = None, sr_retried_count = None\<rparr>"

definition service_done :: "string \<Rightarrow> int \<Rightarrow> int \<Rightarrow> service_result" where
  "service_done m synced failed =
     \<lparr>sr_success = True, sr_message = Some m, sr_error = None,
      sr_synced = Some synced, sr_failed = Some failed, sr_retried_count = None\<rparr>"

text \<open>
  \<^verbatim>\<open>SyncService.sync_data(force=False)\<close>: refuse when offline and not forced; otherwise
  work through the pending rows, commit, clean up, commit.
\<close>

definition service_sync_data ::
  "service_env \<Rightarrow> bool \<Rightarrow> sync_data_row list \<Rightarrow> service_result \<times> sync_data_row list" where
  "service_sync_data env force table =
     (if \<not> is_online env \<and> \<not> force
      then (service_error ''No internet connection available'', table)
      else (case storage_fault env of
              Before_commit e \<Rightarrow> (service_error (''Synchronization failed: '' @ e), table)
            | fault \<Rightarrow>
                if pending_rows table = []
                then (service_done ''No pending data to synchronize'' 0 0, table)
                else (case process_pending env (pending_rows table) (0, 0, table) of
                        (synced, failed, table') \<Rightarrow>
                          (case fault of
                             After_commit e \<Rightarrow>
                               (service_error (''Synchronization failed: '' @ e), table')
                           | _ \<Rightarrow>
                               (service_done ''Synchronization completed'' synced failed,
                                cleanup_old_data (cleanup_cutoff env) table')))))"

text \<open>
  \<^verbatim>\<open>retry_failed_sync()\<close>:
  \<^verbatim>\<open>UPDATE sync_data SET status = 'pending', modified_at = ? WHERE status = 'failed'\<close>,
  the row count of that statement is the \<^verbatim>\<open>retried_count\<close>; when it is positive a pass
  \<^verbatim>\<open>sync_data()\<close> is started right away. An exception before the commit leaves the table
  alone.
\<close>

definition reset_failed :: "string \<Rightarrow> sync_data_row list \<Rightarrow> sync_data_row list" where
  "reset_failed now table =
     map (\<lambda>r. if status r = ''failed'' then r\<lparr>status := ''pending'', modified_at := now\<rparr> else r) table"

definition retry_failed_sync ::
  "string \<Rightarrow> string option \<Rightarrow> service_env \<Rightarrow> sync_data_row list
     \<Rightarrow> service_result \<times> sync_data_row list" where
  "retry_failed_sync now raises env table =
     (case raises of
        Some e \<Rightarrow> (service_error (''Failed to retry sync: '' @ e), table)
      | None \<Rightarrow>
          (let retried = int (length (filter (\<lambda>r. status r = ''failed'') table));
               table' = reset_failed now table
           in (\<lparr>sr_success = True,
                sr_message = Some (''Retried '' @ show_int retried @ '' failed items''),
                sr_error = None, sr_synced = None, sr_failed = None,
                sr_retried_count = Some retried\<rparr>,
               if 0 < retried then snd (service_sync_data env False table') else table')))"

section \<open>Predicates of the specification\<close>

text \<open>
  The invariant of the data model, in the specification's words: every record whose
  \<^verbatim>\<open>synced\<close> flag is 0 has at least one entry in the sync queue for its type and id.
\<close>

definition pending_have_entries :: "offline_manager \<Rightarrow> bool" where
  "pending_have_entries s =
     (list_all (\<lambda>r. p_synced r \<or>
                  list_ex (\<lambda>q. record_type q = ''patient'' \<and> record_id q = patient_id r)
                    (sync_queue s))
        (patients s)
      \<and> list_all (\<lambda>r. a_synced r \<or>
                  list_ex (\<lambda>q. record_type q = ''health_assessment'' \<and> record_id q = assessment_id r)
                    (sync_queue s))
        (health_assessments s))"

text \<open>A patient has a recent assessment: one created at or after the cutoff.\<close>

definition has_recent_assessment :: "string \<Rightarrow> offline_manager \<Rightarrow> string \<Rightarrow> bool" where
  "has_recent_assessment cutoff s pid =
     list_ex (\<lambda>a. a_patient_id a = pid \<and> cutoff \<le> a_created_at a) (health_assessments s)"


section \<open>Example states\<close>

text \<open>The manager on a fresh database, and small stores and environments to run the model on.\<close>

definition init_manager :: offline_manager where
  "init_manager =
     \<lparr>patients = [], health_assessments = [], sync_queue = [],
      sync_in_progress = False, last_sync_time = None\<rparr>"

definition queue_row :: "string \<Rightarrow> string \<Rightarrow> int \<Rightarrow> string \<Rightarrow> int \<Rightarrow> sync_row" where
  "queue_row rtype rid prio at retries =
     \<lparr>sync_id = make_sync_id rtype rid 1704067200, record_type = rtype, record_id = rid,
      data = [(''id'', PyStr rid)], priority = prio, created_at = at, retry_count = retries,
      last_attempt = None, error_message = None\<rparr>"

definition example_queue :: "sync_row list" where
  "example_queue =
     [queue_row ''patient'' ''p1'' 5 ''2024-01-01T00:00:01'' 1,
      queue_row ''patient'' ''p2'' 5 ''2024-01-01T00:00:02'' 0,
      queue_row ''health_assessment'' ''a1'' 10 ''2024-01-01T00:00:03'' 0]"

definition example_db :: "bool \<Rightarrow> central_db" where
  "example_db connected =
     \<lparr>is_connected = Some connected,
      find_one = (\<lambda>c i. Returns None),
      update_one = (\<lambda>c i d. Returns (Some d)),
      insert_one = (\<lambda>c d. Returns (Some d))\<rparr>"

definition example_sync_env :: "bool \<Rightarrow> (nat \<times> string) option \<Rightarrow> sync_env" where
  "example_sync_env connected err =
     \<lparr>db = example_db connected, fromisoformat = (\<lambda>t. None), queue_read_raises = False,
      attempt_now = (\<lambda>i. ''2024-01-02T08:00:00''), decode_raises = (\<lambda>i. None),
      attempt_raises = (\<lambda>i. False), status_raises = (\<lambda>i. False),
      mark_raises = (\<lambda>i. False), pass_error = err, finish_now = ''2024-01-02T08:00:05''\<rparr>"

definition example_patient :: "string \<Rightarrow> patient" where
  "example_patient nm =
     \<lparr>patient_key = ''p1'',
      patient_dict = [(''patient_id'', PyStr ''p1''), (''name'', PyStr nm),
                      (''updated_at'', PyStr ''2024-01-01T00:00:00'')]\<rparr>"

definition example_save_env :: "bool \<Rightarrow> bool \<Rightarrow> save_env" where
  "example_save_env u c =
     \<lparr>save_now = ''2024-01-01T00:00:00.250000'', queue_now = ''2024-01-01T00:00:00.260000'',
      epoch_seconds = 1704067200, upsert_raises = u, commit_raises = c\<rparr>"

text \<open>The store after \<open>example_patient ''Asha''\<close> has been saved once on the fresh database.\<close>

definition saved_once :: offline_manager where
  "saved_once =
     init_manager\<lparr>
       patients :=
         [\<lparr>patient_id = ''p1'', p_data = patient_dict (example_patient ''Asha''),
           p_created_at = ''2024-01-01T00:00:00.250000'',
           p_updated_at = ''2024-01-01T00:00:00.250000'', p_synced = False\<rparr>]\<rparr>"





definition example_service_row :: "string \<Rightarrow> sync_data_row" where
  "example_service_row st =
     \<lparr>sd_sync_id = ''patient_1704067200_p1'', data_type = ''patient'',
      sd_data = [(''id'', PyStr ''p1'')], status = st,
      sd_created_at = ''2024-01-01T00:00:00'', modified_at = ''2024-01-01T00:00:00''\<rparr>"

definition example_service_env :: "bool \<Rightarrow> service_env" where
  "example_service_env online =
     \<lparr>is_online = online,
      update_now = (\<lambda>i. ''2024-01-02T08:00:00''), cleanup_cutoff = ''2023-12-03T08:00:00'',
      storage_fault = No_fault\<rparr>"

text \<open>
  A store for the retention sweep, cutoff \<^verbatim>\<open>2024-01-01T00:00:00\<close>: patient \<open>p1\<close> is synced
  and old and has only an old synced assessment; \<open>p2\<close> is synced and old with a recent
  assessment; \<open>p3\<close> is old and pending.
\<close>

definition retention_store :: offline_manager where
  "retention_store =
     init_manager\<lparr>
       patients :=
         [\<lparr>patient_id = ''p1'', p_data = [], p_created_at = ''2023-10-01T09:00:00'',
           p_updated_at = ''2023-10-01T09:00:00'', p_synced = True\<rparr>,
          \<lparr>patient_id = ''p2'', p_data = [], p_created_at = ''2023-10-02T09:00:00'',
           p_updated_at = ''2023-10-02T09:00:00'', p_synced = True\<rparr>,
          \<lparr>patient_id = ''p3'', p_data = [], p_created_at = ''2023-10-03T09:00:00'',
           p_updated_at = ''2023-10-03T09:00:00'', p_synced = False\<rparr>],
       health_assessments :=
         [\<lparr>assessment_id = ''a1'', a_patient_id = ''p1'', a_data = [],
           a_created_at = ''2023-10-01T10:00:00'', a_synced = True\<rparr>,
          \<lparr>assessment_id = ''a2'', a_patient_id = ''p2'', a_data = [],
           a_created_at = ''2024-01-05T10:00:00'', a_synced = True\<rparr>]\<rparr>"

section \<open>Properties of the conflict resolver\<close>

lemma datetime_gt_refl: "datetime_gt t t = Some False"
  by (cases t) simp_all

lemma resolve_conflict_naive_texts:
  assumes "dict_get central_data ''updated_at'' = PyStr cs" and "cs \<noteq> []"
    and "dict_get local_data ''updated_at'' = PyStr ls" and "ls \<noteq> []"
    and "parse (replace_Z cs) = Some (Naive c)" and "parse (replace_Z ls) = Some (Naive l)"
  shows "resolve_conflict parse rtype central_data local_data = (c < l)"
  using assms by (simp add: resolve_conflict_def parse_time_def)

text \<open>
  Claim C1 (the resolver picks local iff the remote copy is absent, a timestamp is missing
  or unparseable, or local \<open>updated_at\<close> is greater than or equal to the remote one; a tie
  goes to local). The source compares with \<^verbatim>\<open>local_time > central_time\<close>: when both
  documents carry the same parseable timestamp text, the resolver answers \<^verbatim>\<open>False\<close>, so
  the central version is kept and the local one is not written.
\<close>

theorem resolve_conflict_tie_keeps_central:
  assumes "dict_get central_data ''updated_at'' = PyStr ts"
    and "dict_get local_data ''updated_at'' = PyStr ts"
    and "ts \<noteq> []"
    and "parse (replace_Z ts) = Some t"
  shows "resolve_conflict parse rtype central_data local_data = False"
  using assms by (simp add: resolve_conflict_def parse_time_def datetime_gt_refl)

theorem resolve_conflict_tie_keeps_central_witness:
  "resolve_conflict
     (\<lambda>s. if s = ''2024-01-01T00:00:00'' then Some (Naive 1704067200000000) else None)
     ''patient''
     [(''patient_id'', PyStr ''p1''), (''updated_at'', PyStr ''2024-01-01T00:00:00'')]
     [(''patient_id'', PyStr ''p1''), (''updated_at'', PyStr ''2024-01-01T00:00:00'')]
   = False"
  by (rule resolve_conflict_tie_keeps_central [where ts = "''2024-01-01T00:00:00''"
        and t = "Naive 1704067200000000"])
     (simp_all add: dict_get_def replace_Z_def)

section \<open>Properties of the sync queue\<close>

lemma order_key_le: "order_key a \<le> order_key b \<Longrightarrow> queue_order a b"
  by (auto simp: order_key_def queue_order_def)

lemma sorted_wrt_queue_order_sort: "sorted_wrt queue_order (sort_key order_key q)"
proof -
  have "sorted (map order_key (sort_key order_key q))"
    by (rule sorted_sort_key)
  then have "sorted_wrt (\<lambda>a b. order_key a \<le> order_key b) (sort_key order_key q)"
    by (simp add: sorted_wrt_map)
  then show ?thesis
    by (rule sorted_wrt_mono_rel [rotated]) (rule order_key_le)
qed



text \<open>
  Claim C2 (for every queue and every batch limit the batch is ordered by priority
  descending, then retry count ascending, then creation time ascending, and has at most
  \<open>limit\<close> entries). The limit is a Python integer handed to \<^verbatim>\<open>LIMIT ?\<close>, and SQLite
  reads a negative \<^verbatim>\<open>LIMIT\<close> as no limit: with limit \<open>-1\<close> the batch is the whole queue
  of three entries.
\<close>

theorem dequeue_negative_limit_counterexample:
  "map record_id (get_sync_queue_records False (- 1) (init_manager\<lparr>sync_queue := example_queue\<rparr>))
     = [''a1'', ''p2'', ''p1'']
   \<and> \<not> int (length (get_sync_queue_records False (- 1)
                       (init_manager\<lparr>sync_queue := example_queue\<rparr>))) \<le> - 1"
  by (simp add: get_sync_queue_records_def sql_limit_def init_manager_def example_queue_def
      queue_row_def order_key_def)

text \<open>
  Claim C2 as amended: for every queue and every limit, the batch a successful read
  returns is the beginning of the queue's entries put in the order of the claim: some
  rest completes it to a list that has exactly the queue's entries and is sorted by
  \<open>queue_order\<close>. Its length is the limit cut to the queue's length when the limit is not
  negative, and the queue's length when it is negative. A read that raises returns the
  empty list.
\<close>

theorem get_sync_queue_records_batch:
  "(\<exists>rest. mset (get_sync_queue_records False limit s @ rest) = mset (sync_queue s)
          \<and> sorted_wrt queue_order (get_sync_queue_records False limit s @ rest))
   \<and> length (get_sync_queue_records False limit s)
       = (if limit < 0 then length (sync_queue s) else min (nat limit) (length (sync_queue s)))
   \<and> get_sync_queue_records True limit s = []"
proof -
  let ?all = "sort_key order_key (sync_queue s)"
  let ?rest = "if limit < 0 then [] else drop (nat limit) ?all"
  have whole: "get_sync_queue_records False limit s @ ?rest = ?all"
    by (simp add: get_sync_queue_records_def sql_limit_def)
  have "mset (get_sync_queue_records False limit s @ ?rest) = mset (sync_queue s)"
    by (simp only: whole mset_sort)
  moreover have "sorted_wrt queue_order (get_sync_queue_records False limit s @ ?rest)"
    by (simp only: whole sorted_wrt_queue_order_sort)
  moreover have "length (get_sync_queue_records False limit s)
       = (if limit < 0 then length (sync_queue s) else min (nat limit) (length (sync_queue s)))"
    by (simp add: get_sync_queue_records_def sql_limit_def min_def)
  moreover have "get_sync_queue_records True limit s = []"
    by (simp add: get_sync_queue_records_def)
  ultimately show ?thesis by blast
qed

theorem get_sync_queue_records_batch_witness:
  "map record_id (get_sync_queue_records False 2 (init_manager\<lparr>sync_queue := example_queue\<rparr>))
     = [''a1'', ''p2'']
   \<and> length (get_sync_queue_records False 2 (init_manager\<lparr>sync_queue := example_queue\<rparr>))
       = min 2 (length (sync_queue (init_manager\<lparr>sync_queue := example_queue\<rparr>)))
   \<and> get_sync_queue_records True 2 (init_manager\<lparr>sync_queue := example_queue\<rparr>) = []"
proof -
  have "map record_id (get_sync_queue_records False 2 (init_manager\<lparr>sync_queue := example_queue\<rparr>))
          = [''a1'', ''p2'']"
    by (simp add: get_sync_queue_records_def sql_limit_def init_manager_def example_queue_def
        queue_row_def order_key_def)
  then show ?thesis
    using get_sync_queue_records_batch [of 2 "init_manager\<lparr>sync_queue := example_queue\<rparr>"]
    by simp
qed

section \<open>Properties of the sync engine\<close>

text \<open>
  Claim C3 (a trigger while a pass is in flight returns at once with the result "Sync
  already in progress" and changes nothing). With the flag set, \<open>sync_data\<close> returns that
  result, issues no remote write, and hands back the very state it was given: no queue
  entry is touched and no \<^verbatim>\<open>retry_count\<close> grows.
\<close>

theorem sync_data_single_flight:
  assumes "sync_in_progress s"
  shows "sync_data env s =
           (\<lparr>success = False, message = ''Sync already in progress'',
             synced_records = 0, failed_records = None, sync_time = None\<rparr>, [], s)"
  using assms by (simp add: sync_data_def)

theorem sync_data_single_flight_witness:
  "sync_data (example_sync_env True None)
     (init_manager\<lparr>sync_queue := example_queue, sync_in_progress := True\<rparr>) =
   (\<lparr>success = False, message = ''Sync already in progress'',
     synced_records = 0, failed_records = None, sync_time = None\<rparr>, [],
    init_manager\<lparr>sync_queue := example_queue, sync_in_progress := True\<rparr>)"
  by (rule sync_data_single_flight) simp

text \<open>
  Claim C10 (a pass that acquires the gate releases it on every path). Whatever the
  environment decides (no connectivity, a completed pass, an exception escaping the
  body), the state a pass started with a free gate returns has the flag cleared.
\<close>

theorem sync_data_releases_gate:
  assumes "\<not> sync_in_progress s"
  shows "\<not> sync_in_progress (snd (snd (sync_data env s)))"
  using assms by (simp add: sync_data_def split: prod.splits)

theorem sync_data_releases_gate_witness:
  "\<not> sync_in_progress
       (snd (snd (sync_data (example_sync_env True (Some (1, ''disk I/O error'')))
                    (init_manager\<lparr>sync_queue := example_queue\<rparr>))))"
  by (rule sync_data_releases_gate) (simp add: init_manager_def)

lemma idle_flag_cleared: "\<not> sync_in_progress s \<Longrightarrow> s\<lparr>sync_in_progress := False\<rparr> = s"
  by (cases s) simp

text \<open>
  Claim C7 (a pass while offline ends at once, reports zero synced and zero failed, and
  leaves the queue alone). The manager's pass does end at once and changes nothing, but
  its result has no failed count at all; the service's pass is stopped by the probe only
  when it is not forced. The counterexample shows both on concrete inputs.
\<close>

theorem sync_offline_counterexample:
  "failed_records (fst (sync_data (example_sync_env False None)
                          (init_manager\<lparr>sync_queue := example_queue\<rparr>))) \<noteq> Some 0
   \<and> map status (snd (service_sync_data (example_service_env False) True
                         [example_service_row ''pending''])) = [''synced'']"
  by (simp add: sync_data_def sync_body_def check_connectivity_def example_sync_env_def
      example_db_def init_manager_def service_sync_data_def pending_rows_def
      example_service_env_def example_service_row_def sync_with_server_def set_status_def
      cleanup_old_data_def)

text \<open>
  Claim C7 as amended: while the probe reports offline, the manager's pass returns a
  result with \<open>success = False\<close>, \<open>synced_records = 0\<close> and no failed count, issues no
  remote write and returns the state unchanged; the service's pass, when not forced,
  returns an error result and leaves its table unchanged.
\<close>

theorem sync_offline_is_noop:
  "(\<not> check_connectivity (db env) \<longrightarrow>
      sync_data env s =
        (\<lparr>success = False,
          message = (if sync_in_progress s then ''Sync already in progress''
                     else ''No connectivity to central database''),
          synced_records = 0, failed_records = None, sync_time = None\<rparr>, [], s))
   \<and> (\<not> is_online senv \<and> \<not> force \<longrightarrow>
      service_sync_data senv force table
        = (service_error ''No internet connection available'', table))"
  by (simp add: sync_data_def sync_body_def idle_flag_cleared service_sync_data_def)

theorem sync_offline_is_noop_witness:
  "sync_data (example_sync_env False None) (init_manager\<lparr>sync_queue := example_queue\<rparr>) =
     (\<lparr>success = False, message = ''No connectivity to central database'',
       synced_records = 0, failed_records = None, sync_time = None\<rparr>, [],
      init_manager\<lparr>sync_queue := example_queue\<rparr>)
   \<and> service_sync_data (example_service_env False) False [example_service_row ''pending'']
       = (service_error ''No internet connection available'', [example_service_row ''pending''])"
  using sync_offline_is_noop [of "example_sync_env False None"
          "init_manager\<lparr>sync_queue := example_queue\<rparr>" "example_service_env False" False
          "[example_service_row ''pending'']"]
  by (simp add: check_connectivity_def example_sync_env_def example_db_def init_manager_def
      example_service_env_def)

section \<open>Properties of saving and reading\<close>


text \<open>
  Claim C4 (the record upsert and the new queue entry are one transaction: never a
  record written without its queue entry, never a queue entry without the record). The
  save writes the two on separate connections and does not look at the result of
  \<^verbatim>\<open>_add_to_sync_queue\<close>, whose insert fails on the lock of the save's own uncommitted
  upsert. So no save ever changes the queue, and every save that meets no exception of
  its own reports success with the record written and no queue entry for it. (The other
  half of the claim holds: a save never leaves a queue entry behind.)
\<close>

theorem save_offline_not_atomic:
  "sync_queue (snd (save_patient_offline cfg env p s)) = sync_queue s
   \<and> sync_queue (snd (save_assessment_offline cfg env a s)) = sync_queue s
   \<and> (\<not> upsert_raises env \<and> \<not> commit_raises env \<longrightarrow>
        save_patient_offline cfg env p s =
          (True, s\<lparr>patients := upsert_patient (save_now env) p (patients s)\<rparr>)
        \<and> save_assessment_offline cfg env a s =
          (True, s\<lparr>health_assessments :=
                    upsert_assessment (save_now env) a (health_assessments s)\<rparr>))"
  by (simp add: save_patient_offline_def save_assessment_offline_def add_to_sync_queue_def Let_def)

text \<open>
  The witness: the patient of \<open>saved_once\<close> is saved again with a new name; the row takes
  the new data and the queue stays empty.
\<close>

theorem save_offline_not_atomic_witness:
  "save_patient_offline default_config (example_save_env False False)
     (example_patient ''Asha Devi'') saved_once =
     (True, saved_once\<lparr>patients :=
        [\<lparr>patient_id = ''p1'', p_data = patient_dict (example_patient ''Asha Devi''),
          p_created_at = ''2024-01-01T00:00:00.250000'',
          p_updated_at = ''2024-01-01T00:00:00.250000'', p_synced = False\<rparr>]\<rparr>)
   \<and> sync_queue (snd (save_patient_offline default_config (example_save_env False False)
                         (example_patient ''Asha Devi'') saved_once)) = []"
  using save_offline_not_atomic [of default_config "example_save_env False False"
          "example_patient ''Asha Devi''" saved_once]
  by (simp add: example_save_env_def example_patient_def saved_once_def init_manager_def
      upsert_patient_def)

text \<open>
  Claim C5 (every pending record has a live queue entry in every reachable state). One
  save on the fresh store, with nothing raising on the save's connection: the save
  reports success, the patient row is pending, and the queue is empty.
\<close>

theorem pending_record_without_queue_entry:
  "pending_have_entries init_manager
   \<and> save_patient_offline default_config (example_save_env False False)
       (example_patient ''Asha'') init_manager
     = (True, saved_once)
   \<and> \<not> pending_have_entries saved_once"
  by (simp add: pending_have_entries_def save_patient_offline_def add_to_sync_queue_def Let_def
      example_save_env_def example_patient_def init_manager_def default_config_def
      upsert_patient_def saved_once_def)

text \<open>
  Claim C8 (a storage error of a save or read reaches the caller as a \<open>StorageError\<close>
  and is never mistaken for "not found"). The code has no such exception: every
  operation catches what its storage raises. A read that fails returns \<^verbatim>\<open>None\<close>, which
  is also the answer for an id that is not stored.
\<close>

theorem read_error_counterexample:
  "get_patient_offline False ''p1'' saved_once = Some (patient_dict (example_patient ''Asha''))
   \<and> get_patient_offline True ''p1'' saved_once = None
   \<and> get_patient_offline False ''p1'' init_manager = None"
  by (simp add: get_patient_offline_def saved_once_def init_manager_def)

text \<open>
  Claim C8 as amended: a storage error on the save's own connection (before the queue
  call or in the final commit) makes the save return \<^verbatim>\<open>False\<close> and leaves the record
  table as it was; a storage error in a read makes it return \<^verbatim>\<open>None\<close>, the value a read
  also returns for an id that is not stored.
\<close>

theorem storage_errors_are_return_values:
  "(upsert_raises env \<or> commit_raises env \<longrightarrow>
      fst (save_patient_offline cfg env p s) = False
      \<and> patients (snd (save_patient_offline cfg env p s)) = patients s)
   \<and> (upsert_raises env \<or> commit_raises env \<longrightarrow>
      fst (save_assessment_offline cfg env a s) = False
      \<and> health_assessments (snd (save_assessment_offline cfg env a s)) = health_assessments s)
   \<and> get_patient_offline True pid s = None
   \<and> get_assessment_offline True aid s = None
   \<and> (pid \<notin> set (map patient_id (patients s)) \<longrightarrow> get_patient_offline False pid s = None)
   \<and> (aid \<notin> set (map assessment_id (health_assessments s)) \<longrightarrow>
        get_assessment_offline False aid s = None)"
  by (auto simp: save_patient_offline_def save_assessment_offline_def add_to_sync_queue_def
      get_patient_offline_def get_assessment_offline_def Let_def find_None_iff)

theorem storage_errors_are_return_values_witness:
  "fst (save_patient_offline default_config (example_save_env True False)
          (example_patient ''Asha Devi'') saved_once) = False
   \<and> patients (snd (save_patient_offline default_config (example_save_env True False)
          (example_patient ''Asha Devi'') saved_once)) = patients saved_once
   \<and> get_patient_offline True ''p1'' saved_once = None
   \<and> get_patient_offline False ''p2'' saved_once = None"
  using storage_errors_are_return_values [of "example_save_env True False" default_config
          "example_patient ''Asha Devi''" saved_once _ "''p2''"]
        storage_errors_are_return_values [of "example_save_env True False" default_config
          "example_patient ''Asha Devi''" saved_once _ "''p1''"]
  by (simp add: example_save_env_def saved_once_def init_manager_def)

section \<open>Properties of the storage reclaimer\<close>

lemma recent_patient_ids_set:
  "set (remdups (map a_patient_id (filter (\<lambda>r. cutoff \<le> a_created_at r)
         (filter (\<lambda>r. \<not> (a_synced r \<and> a_created_at r < cutoff)) rows))))
   = {pid. list_ex (\<lambda>a. a_patient_id a = pid \<and> cutoff \<le> a_created_at a) rows}"
  by (auto simp: list_ex_iff)

lemma clean_old_synced_records_eq:
  "clean_old_synced_records False cutoff s =
     s\<lparr>health_assessments :=
         filter (\<lambda>r. \<not> (a_synced r \<and> a_created_at r < cutoff)) (health_assessments s),
       patients :=
         filter (\<lambda>r. \<not> (p_synced r \<and> p_updated_at r < cutoff
                        \<and> \<not> has_recent_assessment cutoff s (patient_id r))) (patients s)\<rparr>"
proof -
  let ?kept = "filter (\<lambda>r. \<not> (a_synced r \<and> a_created_at r < cutoff)) (health_assessments s)"
  let ?recent = "remdups (map a_patient_id (filter (\<lambda>r. cutoff \<le> a_created_at r) ?kept))"
  have mem: "pid \<in> set ?recent \<longleftrightarrow> has_recent_assessment cutoff s pid" for pid
    unfolding recent_patient_ids_set has_recent_assessment_def by simp
  have with_ids:
    "filter (\<lambda>r. \<not> (p_synced r \<and> p_updated_at r < cutoff \<and> patient_id r \<notin> set ?recent)) (patients s)
       = filter (\<lambda>r. \<not> (p_synced r \<and> p_updated_at r < cutoff
                       \<and> \<not> has_recent_assessment cutoff s (patient_id r))) (patients s)"
    by (simp only: mem)
  have without_ids:
    "filter (\<lambda>r. \<not> (p_synced r \<and> p_updated_at r < cutoff)) (patients s)
       = filter (\<lambda>r. \<not> (p_synced r \<and> p_updated_at r < cutoff
                       \<and> \<not> has_recent_assessment cutoff s (patient_id r))) (patients s)"
    if e: "?recent = []"
  proof -
    have "\<not> has_recent_assessment cutoff s pid" for pid
      using mem [of pid] e by (metis empty_iff empty_set)
    then show ?thesis by simp
  qed
  from with_ids without_ids show ?thesis
    by (simp add: clean_old_synced_records_def Let_def)
qed

text \<open>
  Claim C9 (the retention sweep above 90 percent of the cap). With the size over the
  limit and nothing raising, the sweep returns the store in which exactly the synced
  assessments created before the cutoff are gone, and exactly the synced patients updated
  before the cutoff that have no assessment at or after the cutoff; the queue is as it
  was. And whatever the size and whether or not the sweep raises, every pending patient
  and every pending assessment is still there afterwards.
\<close>

theorem retention_sweep:
  assumes "over_storage_limit cfg size_bytes"
  shows "manage_storage cfg (Some size_bytes) False cutoff s =
           s\<lparr>health_assessments :=
               filter (\<lambda>r. \<not> (a_synced r \<and> a_created_at r < cutoff)) (health_assessments s),
             patients :=
               filter (\<lambda>r. \<not> (p_synced r \<and> p_updated_at r < cutoff
                              \<and> \<not> has_recent_assessment cutoff s (patient_id r))) (patients s)\<rparr>
       \<and> (\<forall>r \<in> set (patients s). \<not> p_synced r \<longrightarrow>
             r \<in> set (patients (manage_storage cfg db_size raises cutoff s)))
       \<and> (\<forall>r \<in> set (health_assessments s). \<not> a_synced r \<longrightarrow>
             r \<in> set (health_assessments (manage_storage cfg db_size raises cutoff s)))"
proof -
  have "manage_storage cfg (Some size_bytes) False cutoff s = clean_old_synced_records False cutoff s"
    using assms by (simp add: manage_storage_def)
  moreover have "\<forall>r \<in> set (patients s). \<not> p_synced r \<longrightarrow>
      r \<in> set (patients (manage_storage cfg db_size raises cutoff s))"
    by (auto simp: manage_storage_def clean_old_synced_records_def Let_def split: option.splits)
  moreover have "\<forall>r \<in> set (health_assessments s). \<not> a_synced r \<longrightarrow>
      r \<in> set (health_assessments (manage_storage cfg db_size raises cutoff s))"
    by (auto simp: manage_storage_def clean_old_synced_records_def Let_def split: option.splits)
  ultimately show ?thesis
    by (simp only: clean_old_synced_records_eq)
qed

text \<open>
  The witness: 480 MB on disk against the default cap of 500 MB. Patient \<open>p1\<close> and its old
  synced assessment \<open>a1\<close> go; \<open>p2\<close> stays for its recent assessment \<open>a2\<close>; the pending \<open>p3\<close>
  stays.
\<close>

theorem retention_sweep_witness:
  "over_storage_limit default_config 503316480
   \<and> map patient_id (patients (manage_storage default_config (Some 503316480) False
                                  ''2024-01-01T00:00:00'' retention_store)) = [''p2'', ''p3'']
   \<and> map assessment_id (health_assessments (manage_storage default_config (Some 503316480) False
                                  ''2024-01-01T00:00:00'' retention_store)) = [''a2'']"
proof -
  have over: "over_storage_limit default_config 503316480"
    by (simp add: over_storage_limit_def default_config_def)
  show ?thesis
    using over retention_sweep [OF over, of "''2024-01-01T00:00:00''" retention_store]
    by (simp add: retention_store_def init_manager_def has_recent_assessment_def)
qed

section \<open>Properties of failed attempts\<close>













text \<open>
  The service's table does have a status, but the stub \<^verbatim>\<open>_sync_with_server\<close> never
  fails: a pass creates no row with status \<^verbatim>\<open>'failed'\<close>. \<^verbatim>\<open>retry_failed_sync\<close> reports
  the number of rows it found with that status.
\<close>

lemma set_status_back:
  "r \<in> set (set_status st now sid table) \<Longrightarrow> status r \<noteq> st \<Longrightarrow> r \<in> set table"
  by (auto simp: set_status_def split: if_splits)

lemma process_pending_only_syncs:
  "r \<in> set (snd (snd (process_pending env rows (a, b, table)))) \<Longrightarrow> status r \<noteq> ''synced'' \<Longrightarrow>
     r \<in> set table"
proof (induction rows arbitrary: a b table)
  case Nil
  then show ?case by simp
next
  case (Cons x rows)
  from Cons.prems(1)
  have "r \<in> set (snd (snd (process_pending env rows
           (a + 1, b, set_status ''synced'' (update_now env (sd_sync_id x)) (sd_sync_id x) table))))"
    by (simp add: sync_with_server_def)
  from Cons.IH [OF this Cons.prems(2)] show ?case
    using Cons.prems(2) by (rule set_status_back)
qed

lemma service_pass_fails_no_row:
  assumes "r \<in> set (snd (service_sync_data env force table))" and "status r = ''failed''"
  shows "r \<in> set table"
proof -
  obtain a b t where p: "process_pending env (pending_rows table) (0, 0, table) = (a, b, t)"
    by (cases "process_pending env (pending_rows table) (0, 0, table)") auto
  have "r \<in> set t \<Longrightarrow> r \<in> set table"
    using process_pending_only_syncs [of r env "pending_rows table" 0 0 table] p assms(2) by simp
  then show ?thesis
    using assms(1) p
    by (auto simp: service_sync_data_def cleanup_old_data_def split: if_splits storage_fault.splits)
qed

lemma retry_failed_sync_reports_count:
  "sr_retried_count (fst (retry_failed_sync now None env table))
     = Some (int (length (filter (\<lambda>r. status r = ''failed'') table)))"
  by (simp add: retry_failed_sync_def Let_def)

end
